theory Spec2Isabelle
  imports Main
begin

section \<open>The hospital registry: data model\<close>

text \<open>
  \<^verbatim>\<open>AbstractPerson\<close> (AbstractPerson.h) holds a name, a date of birth and the
  person's appointment list, a \<^verbatim>\<open>vector<pair<string, pair<string, string>>>\<close> of
  (dateTime, (patientName, doctorName)).  \<^verbatim>\<open>Doctor\<close> and \<^verbatim>\<open>Patient\<close> add no data
  member that matters here (their \<^verbatim>\<open>InputOutput\<close> member is stateless).
\<close>

record AbstractPerson =
  name :: string
  dateOfBirth :: string
  appointments :: "(string \<times> string \<times> string) list"

type_synonym Doctor = AbstractPerson
type_synonym Patient = AbstractPerson

text \<open>The constructors \<^verbatim>\<open>Doctor(name)\<close> (the date of birth stays the empty string) and
  \<^verbatim>\<open>Patient(name, dateOfBirth)\<close>.\<close>

definition Doctor :: "string \<Rightarrow> Doctor" where
  "Doctor nm = \<lparr>name = nm, dateOfBirth = [], appointments = []\<rparr>"

definition Patient :: "string \<Rightarrow> string \<Rightarrow> Patient" where
  "Patient nm dob = \<lparr>name = nm, dateOfBirth = dob, appointments = []\<rparr>"

text \<open>\<^verbatim>\<open>Appointment\<close> and \<^verbatim>\<open>HospitalVisitCard\<close> store their doctor and patient by value:
  a snapshot taken when the object is constructed.\<close>

record Appointment =
  a_dateTime :: string
  a_doctor :: Doctor
  a_patient :: Patient

record HospitalVisitCard =
  vc_doctor :: Doctor
  vc_patient :: Patient
  vc_dateTime :: string
  vc_diagnosis :: string

definition getPatientName :: "HospitalVisitCard \<Rightarrow> string" where
  "getPatientName vc = name (vc_patient vc)"

text \<open>The four collections of \<^verbatim>\<open>Registry\<close> (\<^verbatim>\<open>_visitCards\<close>, \<^verbatim>\<open>_doctors\<close>,
  \<^verbatim>\<open>_patients\<close>, \<^verbatim>\<open>_appointments\<close>).\<close>

record Registry =
  m_visitCards :: "HospitalVisitCard list"
  m_doctors :: "Doctor list"
  m_patients :: "Patient list"
  m_appointments :: "Appointment list"

text \<open>A freshly constructed registry: the member initialisers of the class.\<close>

definition Registry_init :: Registry where
  "Registry_init =
     \<lparr>m_visitCards = [],
      m_doctors =
        [Doctor ''John Smith'', Doctor ''Emily Johnson'', Doctor ''David Brown'',
         Doctor ''Sarah Lee'', Doctor ''Michael Wilson'', Doctor ''Alexandra Garcia'',
         Doctor ''Matthew Taylor'', Doctor ''Olivia Martinez''],
      m_patients =
        [Patient ''Alice Smith'' ''23.08.1997'', Patient ''Bob Johnson'' ''22.06.2000'',
         Patient ''Charlie Brown'' ''12.01.1998'', Patient ''Diana Davis'' ''03.03.2003'',
         Patient ''Eva Martinez'' ''02.08.2008'', Patient ''Frank Lopez'' ''14.02.2012'',
         Patient ''Grace Lee'' ''14.08.2012'', Patient ''Henry Jackson'' ''22.08.2006''],
      m_appointments = []\<rparr>"

definition WORK_START_HOUR :: int where "WORK_START_HOUR = 8"
definition WORK_END_HOUR :: int where "WORK_END_HOUR = 18"
definition APPOINTMENT_DURATION :: int where "APPOINTMENT_DURATION = 30"

text \<open>Exceptions are values.  A method of the registry takes the registry and returns what
  the call printed through \<^verbatim>\<open>interface.printMsg\<close>, its result or the exception it
  threw, and the registry as the call left it (also when it threw).\<close>

datatype exn = runtime_error string | out_of_range string

section \<open>Persons\<close>

text \<open>\<^verbatim>\<open>Doctor::isAvailable\<close>: the scan returns false at the first entry whose dateTime is
  the given string.\<close>

fun isAvailable_scan :: "string \<Rightarrow> (string \<times> string \<times> string) list \<Rightarrow> bool" where
  "isAvailable_scan dateTime [] = True"
| "isAvailable_scan dateTime (app # apps) =
     (if fst app = dateTime then False else isAvailable_scan dateTime apps)"

definition isAvailable :: "string \<Rightarrow> Doctor \<Rightarrow> bool" where
  "isAvailable dateTime doctor = isAvailable_scan dateTime (appointments doctor)"

definition addAppointment :: "string \<Rightarrow> string \<Rightarrow> string \<Rightarrow> AbstractPerson \<Rightarrow> AbstractPerson" where
  "addAppointment dateTime patientName doctorName p =
     p\<lparr>appointments := appointments p @ [(dateTime, (patientName, doctorName))]\<rparr>"

text \<open>\<^verbatim>\<open>std::remove_if\<close> followed by \<^verbatim>\<open>erase\<close> keeps, in order, the elements that do
  not satisfy the predicate.\<close>

definition remove_if :: "('a \<Rightarrow> bool) \<Rightarrow> 'a list \<Rightarrow> 'a list" where
  "remove_if P xs = filter (\<lambda>x. \<not> P x) xs"

definition deleteAppointment :: "string \<Rightarrow> string \<Rightarrow> string \<Rightarrow> AbstractPerson \<Rightarrow> AbstractPerson" where
  "deleteAppointment dateTime patientName doctorName p =
     p\<lparr>appointments :=
         remove_if (\<lambda>appointment. fst appointment = dateTime \<and>
                                  fst (snd appointment) = patientName \<and>
                                  snd (snd appointment) = doctorName)
                   (appointments p)\<rparr>"

section \<open>Lookups\<close>

text \<open>The lookups return a reference into the registry's vector: the position of the first
  person with the name.\<close>

fun find_name :: "string \<Rightarrow> AbstractPerson list \<Rightarrow> nat option" where
  "find_name nm [] = None"
| "find_name nm (p # ps) =
     (if name p = nm then Some 0 else map_option Suc (find_name nm ps))"

fun patientExists_scan :: "string \<Rightarrow> Patient list \<Rightarrow> bool" where
  "patientExists_scan nm [] = False"
| "patientExists_scan nm (patient # ps) =
     (if name patient = nm then True else patientExists_scan nm ps)"

definition patientExists :: "string \<Rightarrow> Registry \<Rightarrow> bool \<times> Registry" where
  "patientExists nm r = (patientExists_scan nm (m_patients r), r)"

definition findDoctorByName :: "string \<Rightarrow> Registry \<Rightarrow> (exn + nat) \<times> Registry" where
  "findDoctorByName nm r =
     (case find_name nm (m_doctors r) of
        Some i \<Rightarrow> (Inr i, r)
      | None \<Rightarrow> (Inl (runtime_error ''Doctor not found.''), r))"

definition findPatientByName :: "string \<Rightarrow> Registry \<Rightarrow> (exn + nat) \<times> Registry" where
  "findPatientByName nm r =
     (case find_name nm (m_patients r) of
        Some j \<Rightarrow> (Inr j, r)
      | None \<Rightarrow> (Inl (runtime_error ''Patient not found.''), r))"

text \<open>\<^verbatim>\<open>getByIndex\<close>: a reference to the element, or \<^verbatim>\<open>out_of_range\<close>.\<close>

definition getByIndex :: "int \<Rightarrow> 'a list \<Rightarrow> exn + nat" where
  "getByIndex index items =
     (if 0 \<le> index \<and> index < int (length items) then Inr (nat index)
      else Inl (out_of_range ''Invalid index.''))"

section \<open>Booking and cancellation\<close>

text \<open>What a call printed through \<^verbatim>\<open>interface.printMsg\<close>, and its result or the
  exception that left it.\<close>

type_synonym 'a outcome = "string list \<times> (exn + 'a)"

text \<open>\<^verbatim>\<open>scheduleAppointment\<close> takes its doctor by reference and appends to it.  The
  argument is either an element of the registry's own vector, as the menu passes it
  (\<^verbatim>\<open>registry.getByIndex(index, registry.getDoctors())\<close>, which throws when the index is
  out of range), or a \<^verbatim>\<open>Doctor\<close> object that the caller owns.  The call returns the
  doctor argument as it is afterwards.  Of the patient argument only \<^verbatim>\<open>getName()\<close> is
  read.\<close>

datatype DoctorRef = RegistryDoctor int | CallerDoctor Doctor

fun resolve :: "DoctorRef \<Rightarrow> Registry \<Rightarrow> exn + Doctor" where
  "resolve (RegistryDoctor index) r =
     (case getByIndex index (m_doctors r) of
        Inl e \<Rightarrow> Inl e
      | Inr i \<Rightarrow> Inr (m_doctors r ! i))"
| "resolve (CallerDoctor d) r = Inr d"

fun store :: "DoctorRef \<Rightarrow> Doctor \<Rightarrow> Registry \<Rightarrow> DoctorRef \<times> Registry" where
  "store (RegistryDoctor index) d r =
     (RegistryDoctor index, r\<lparr>m_doctors := (m_doctors r)[nat index := d]\<rparr>)"
| "store (CallerDoctor old) d r = (CallerDoctor d, r)"

definition make_Appointment :: "string \<Rightarrow> Doctor \<Rightarrow> Patient \<Rightarrow> Appointment" where
  "make_Appointment dateTime doctor patient =
     \<lparr>a_dateTime = dateTime, a_doctor = doctor, a_patient = patient\<rparr>"

definition scheduleAppointment ::
  "string \<Rightarrow> DoctorRef \<Rightarrow> Patient \<Rightarrow> Registry \<Rightarrow> unit outcome \<times> DoctorRef \<times> Registry" where
  "scheduleAppointment dateTime dref patient r =
     (case resolve dref r of
        Inl e \<Rightarrow> (([], Inl e), dref, r)
      | Inr doctor \<Rightarrow>
          if isAvailable dateTime doctor then
            let doctor1 = addAppointment dateTime (name patient) (name doctor) doctor;
                (dref1, r1) = store dref doctor1 r;
                (found, r2) = findPatientByName (name patient) r1
            in case found of
                 Inl e \<Rightarrow> (([], Inl e), dref1, r2)
               | Inr j \<Rightarrow>
                   let registeredPatient =
                         addAppointment dateTime (name patient) (name doctor1) (m_patients r2 ! j);
                       r3 = r2\<lparr>m_patients := (m_patients r2)[j := registeredPatient]\<rparr>;
                       newAppointment = make_Appointment dateTime doctor1 registeredPatient;
                       r4 = r3\<lparr>m_appointments := m_appointments r3 @ [newAppointment]\<rparr>
                   in (([''Appointment scheduled for '' @ dateTime @ '' with Dr. '' @ name doctor1 @
                         '' for patient '' @ name registeredPatient], Inr ()), dref1, r4)
          else
            (([''Sorry, Dr. '' @ name doctor @ '' is not available at '' @ dateTime @
               ''. Please choose another time.''], Inr ()), dref, r))"

definition cancelAppointment ::
  "string \<Rightarrow> string \<Rightarrow> string \<Rightarrow> Registry \<Rightarrow> unit outcome \<times> Registry" where
  "cancelAppointment dateTime patientName doctorName r =
     (let r1 = r\<lparr>m_appointments :=
                   remove_if (\<lambda>app. a_dateTime app = dateTime \<and>
                                    name (a_patient app) = patientName \<and>
                                    name (a_doctor app) = doctorName)
                             (m_appointments r)\<rparr>;
          (foundDoctor, r2) = findDoctorByName doctorName r1
      in case foundDoctor of
           Inl e \<Rightarrow> (([], Inl e), r2)
         | Inr i \<Rightarrow>
             let r3 = r2\<lparr>m_doctors :=
                           (m_doctors r2)[i := deleteAppointment dateTime patientName doctorName
                                                 (m_doctors r2 ! i)]\<rparr>;
                 (foundPatient, r4) = findPatientByName patientName r3
             in case foundPatient of
                  Inl e \<Rightarrow> (([], Inl e), r4)
                | Inr j \<Rightarrow>
                    let r5 = r4\<lparr>m_patients :=
                                  (m_patients r4)[j := deleteAppointment dateTime patientName doctorName
                                                         (m_patients r4 ! j)]\<rparr>
                    in (([''Appointment on '' @ dateTime @ '' canceled for patient '' @ patientName],
                         Inr ()), r5))"

section \<open>Patients and visit cards\<close>

definition addPatient :: "string \<Rightarrow> string \<Rightarrow> Registry \<Rightarrow> Patient outcome \<times> Registry" where
  "addPatient nm age r =
     (let (exists, r1) = patientExists nm r
      in if exists then
           let (found, r2) = findPatientByName nm r1
           in case found of
                Inl e \<Rightarrow> (([''Patient '' @ nm @ '' already exists.''], Inl e), r2)
              | Inr j \<Rightarrow> (([''Patient '' @ nm @ '' already exists.''], Inr (m_patients r2 ! j)), r2)
         else
           let patient = Patient nm age;
               r2 = r1\<lparr>m_patients := m_patients r1 @ [patient]\<rparr>
           in (([''Patient '' @ nm @ '' added to the registry.''], Inr patient), r2))"

definition make_HospitalVisitCard ::
  "Doctor \<Rightarrow> Patient \<Rightarrow> string \<Rightarrow> string \<Rightarrow> HospitalVisitCard" where
  "make_HospitalVisitCard doc pat date diag =
     \<lparr>vc_doctor = doc, vc_patient = pat, vc_dateTime = date, vc_diagnosis = diag\<rparr>"

definition addHospitalVisitCard ::
  "Doctor \<Rightarrow> Patient \<Rightarrow> string \<Rightarrow> string \<Rightarrow> Registry \<Rightarrow> HospitalVisitCard \<times> Registry" where
  "addHospitalVisitCard doctor patient dateTime diagnosis r =
     (let visitCard = make_HospitalVisitCard doctor patient dateTime diagnosis
      in (visitCard, r\<lparr>m_visitCards := m_visitCards r @ [visitCard]\<rparr>))"

fun visitCards_loop ::
  "Patient \<Rightarrow> HospitalVisitCard list \<Rightarrow> HospitalVisitCard list \<Rightarrow> HospitalVisitCard list" where
  "visitCards_loop patient [] patientVisitCards = patientVisitCards"
| "visitCards_loop patient (visitCard # rest) patientVisitCards =
     visitCards_loop patient rest
       (if getPatientName visitCard = name patient then patientVisitCards @ [visitCard]
        else patientVisitCards)"

definition getVisitCardsForPatient :: "Patient \<Rightarrow> Registry \<Rightarrow> HospitalVisitCard list \<times> Registry" where
  "getVisitCardsForPatient patient r = (visitCards_loop patient (m_visitCards r) [], r)"

section \<open>Free slots\<close>

text \<open>\<^verbatim>\<open>snprintf(buffer, sizeof(buffer), "%02d:%02d", hour, minute)\<close> with a buffer of ten
  bytes: each number in decimal, padded with a zero to two characters, and at most nine
  characters of the whole.\<close>

function decimal :: "nat \<Rightarrow> string" where
  "decimal n = (if n < 10 then [''0123456789'' ! n] else decimal (n div 10) @ [''0123456789'' ! (n mod 10)])"
  by pat_completeness auto
termination
  by (relation "measure (\<lambda>n. n)") auto

declare decimal.simps [simp del]

definition printf_02d :: "int \<Rightarrow> string" where
  "printf_02d n =
     (let s = (if n < 0 then ''-'' @ decimal (nat (- n)) else decimal (nat n))
      in if length s < 2 then ''0'' @ s else s)"

definition snprintf_time :: "int \<Rightarrow> int \<Rightarrow> string" where
  "snprintf_time hour minute = take 9 (printf_02d hour @ '':'' @ printf_02d minute)"

text \<open>The three nested loops of \<^verbatim>\<open>getAvailableTimes\<close>, innermost first.\<close>

function minute_loop ::
  "string \<Rightarrow> Doctor \<Rightarrow> int \<Rightarrow> int \<Rightarrow> (string \<times> string) list \<Rightarrow> (string \<times> string) list" where
  "minute_loop date doctor hour minute availableTimes =
     (if minute < 60 then
        let time = snprintf_time hour minute;
            dateTime = date @ '' '' @ time
        in minute_loop date doctor hour (minute + APPOINTMENT_DURATION)
             (if isAvailable dateTime doctor then availableTimes @ [(dateTime, name doctor)]
              else availableTimes)
      else availableTimes)"
  by pat_completeness auto
termination
  by (relation "measure (\<lambda>(date, doctor, hour, minute, availableTimes). nat (60 - minute))")
     (auto simp: APPOINTMENT_DURATION_def)

declare minute_loop.simps [simp del]

function hour_loop ::
  "string \<Rightarrow> Doctor \<Rightarrow> int \<Rightarrow> (string \<times> string) list \<Rightarrow> (string \<times> string) list" where
  "hour_loop date doctor hour availableTimes =
     (if hour < WORK_END_HOUR then
        hour_loop date doctor (hour + 1) (minute_loop date doctor hour 0 availableTimes)
      else availableTimes)"
  by pat_completeness auto
termination
  by (relation "measure (\<lambda>(date, doctor, hour, availableTimes). nat (WORK_END_HOUR - hour))") auto

declare hour_loop.simps [simp del]

fun doctors_loop :: "string \<Rightarrow> Doctor list \<Rightarrow> (string \<times> string) list \<Rightarrow> (string \<times> string) list" where
  "doctors_loop date [] availableTimes = availableTimes"
| "doctors_loop date (doctor # rest) availableTimes =
     doctors_loop date rest (hour_loop date doctor WORK_START_HOUR availableTimes)"

definition getAvailableTimes :: "string \<Rightarrow> Registry \<Rightarrow> (string \<times> string) list \<times> Registry" where
  "getAvailableTimes date r = (doctors_loop date (m_doctors r) [], r)"

fun forDoctor_loop :: "string \<Rightarrow> (string \<times> string) list \<Rightarrow> (string \<times> string) list \<Rightarrow> (string \<times> string) list" where
  "forDoctor_loop doctorName [] availableTimes = availableTimes"
| "forDoctor_loop doctorName (timeDoctorPair # rest) availableTimes =
     forDoctor_loop doctorName rest
       (if snd timeDoctorPair = doctorName then availableTimes @ [timeDoctorPair]
        else availableTimes)"

definition getAvailableTimesForDoctor ::
  "string \<Rightarrow> string \<Rightarrow> Registry \<Rightarrow> (string \<times> string) list \<times> Registry" where
  "getAvailableTimesForDoctor date doctorName r =
     (let (allAvailableTimes, r1) = getAvailableTimes date r
      in (forDoctor_loop doctorName allAvailableTimes [], r1))"

text \<open>\<^verbatim>\<open>getAvailableDoctors\<close>: the names in the free slots go into a \<^verbatim>\<open>std::set\<close>; the
  doctors whose name is in the set are listed in registry order.\<close>

fun uniqueDoctors_loop :: "(string \<times> string) list \<Rightarrow> string set \<Rightarrow> string set" where
  "uniqueDoctors_loop [] uniqueDoctors = uniqueDoctors"
| "uniqueDoctors_loop (timeDoctorPair # rest) uniqueDoctors =
     uniqueDoctors_loop rest (insert (snd timeDoctorPair) uniqueDoctors)"

fun availableDoctors_loop :: "string set \<Rightarrow> Doctor list \<Rightarrow> string list \<Rightarrow> string list" where
  "availableDoctors_loop uniqueDoctors [] availableDoctors = availableDoctors"
| "availableDoctors_loop uniqueDoctors (doctor # rest) availableDoctors =
     availableDoctors_loop uniqueDoctors rest
       (if name doctor \<in> uniqueDoctors then availableDoctors @ [name doctor]
        else availableDoctors)"

definition getAvailableDoctors :: "string \<Rightarrow> Registry \<Rightarrow> string list \<times> Registry" where
  "getAvailableDoctors date r =
     (let (availableTimes, r1) = getAvailableTimes date r;
          uniqueDoctors = uniqueDoctors_loop availableTimes {}
      in (availableDoctors_loop uniqueDoctors (m_doctors r1) [], r1))"

section \<open>Default appointments\<close>

text \<open>\<^verbatim>\<open>scheduleDefaulteAppointmentsForDate\<close> indexes \<^verbatim>\<open>_doctors\<close>, \<^verbatim>\<open>_patients\<close> and its
  table of times with \<^verbatim>\<open>operator[]\<close>, which has no defined behaviour out of range: the
  model returns \<open>None\<close> there.  The index into the table is an \<^verbatim>\<open>int\<close> and the table's
  size a \<^verbatim>\<open>size_t\<close>, so the sum is taken in unsigned 64-bit arithmetic before the
  remainder.\<close>

definition defaultTime :: "string list" where
  "defaultTime = ['' 17:00'', '' 12:30'', '' 08:30'', '' 14:00'', '' 13:30'', '' 09:00'', '' 15:00'', '' 10:00'']"

definition in_range :: "int \<Rightarrow> 'a list \<Rightarrow> bool" where
  "in_range i xs = (0 \<le> i \<and> i < int (length xs))"

function default_patients_loop ::
  "string \<Rightarrow> int \<Rightarrow> int \<Rightarrow> int \<Rightarrow> int \<Rightarrow> Registry \<Rightarrow> (int \<times> Registry) option" where
  "default_patients_loop date i j patientCount defaultTimeIndex r =
     (if j < patientCount then
        if in_range defaultTimeIndex defaultTime \<and> in_range i (m_doctors r) \<and> in_range j (m_patients r)
        then
          let dateTime = date @ defaultTime ! nat defaultTimeIndex;
              r1 = r\<lparr>m_doctors := (m_doctors r)[nat i :=
                       addAppointment dateTime (name (m_patients r ! nat j)) (name (m_doctors r ! nat i))
                         (m_doctors r ! nat i)]\<rparr>;
              r2 = r1\<lparr>m_patients := (m_patients r1)[nat j :=
                       addAppointment dateTime (name (m_patients r1 ! nat j)) (name (m_doctors r1 ! nat i))
                         (m_patients r1 ! nat j)]\<rparr>;
              r3 = r2\<lparr>m_appointments := m_appointments r2 @
                       [make_Appointment dateTime (m_doctors r2 ! nat i) (m_patients r2 ! nat j)]\<rparr>;
              defaultTimeIndex1 =
                ((defaultTimeIndex - 1 + int (length defaultTime)) mod 2 ^ 64) mod int (length defaultTime)
          in default_patients_loop date i (j + 1) patientCount defaultTimeIndex1 r3
        else None
      else Some (defaultTimeIndex, r))"
  by pat_completeness auto
termination
  by (relation "measure (\<lambda>(date, i, j, patientCount, defaultTimeIndex, r). nat (patientCount - j))") auto

declare default_patients_loop.simps [simp del]

function default_doctors_loop ::
  "string \<Rightarrow> int \<Rightarrow> int \<Rightarrow> int \<Rightarrow> int \<Rightarrow> int \<Rightarrow> Registry \<Rightarrow> Registry option" where
  "default_doctors_loop date i doctorCount patientCount startIndex defaultTimeIndex r =
     (if i < doctorCount then
        case default_patients_loop date i startIndex patientCount defaultTimeIndex r of
          None \<Rightarrow> None
        | Some (defaultTimeIndex1, r1) \<Rightarrow>
            default_doctors_loop date (i + 1) doctorCount patientCount startIndex defaultTimeIndex1 r1
      else Some r)"
  by pat_completeness auto
termination
  by (relation "measure (\<lambda>(date, i, doctorCount, patientCount, startIndex, defaultTimeIndex, r).
                           nat (doctorCount - i))") auto

declare default_doctors_loop.simps [simp del]

definition scheduleDefaulteAppointmentsForDate ::
  "string \<Rightarrow> int \<Rightarrow> int \<Rightarrow> int \<Rightarrow> int \<Rightarrow> Registry \<Rightarrow> Registry option" where
  "scheduleDefaulteAppointmentsForDate date defaultTimeIndex doctorCount patientCount startIndex r =
     default_doctors_loop date startIndex doctorCount patientCount startIndex defaultTimeIndex r"

text \<open>\<^verbatim>\<open>generateDefaultAppointments\<close> reads the clock through \<^verbatim>\<open>getTodayDate()\<close> and
  \<^verbatim>\<open>getTomorrowDate()\<close>; the two date strings are parameters here.\<close>

definition generateDefaultAppointments :: "string \<Rightarrow> string \<Rightarrow> Registry \<Rightarrow> Registry option" where
  "generateDefaultAppointments today_date tomorrow_date r =
     (case scheduleDefaulteAppointmentsForDate today_date 0
             (int (length (m_doctors r) div 2)) (int (length (m_patients r) div 2)) 0 r of
        None \<Rightarrow> None
      | Some r1 \<Rightarrow>
          scheduleDefaulteAppointmentsForDate tomorrow_date 7
            (int (length (m_doctors r1))) (int (length (m_patients r1))) 4 r1)"

section \<open>Specification-side definitions\<close>

text \<open>The slots of a date as the specification words them: hours 8 to 17, minutes 0 and 30,
  written \<^verbatim>\<open>HH:MM\<close> with two digits each after the date and one space.\<close>

definition two_digits :: "nat \<Rightarrow> string" where
  "two_digits n = [''0123456789'' ! (n div 10), ''0123456789'' ! (n mod 10)]"

definition spec_slots :: "string \<Rightarrow> string list" where
  "spec_slots date = [date @ '' '' @ two_digits hour @ '':'' @ two_digits minute.
                        hour \<leftarrow> [8..<18], minute \<leftarrow> [0, 30]]"

text \<open>The free slots as the specification words them: doctors in registry order, and for each
  doctor the slots in time order for which the doctor has no appointment with that dateTime.\<close>

definition spec_getAvailableTimes :: "string \<Rightarrow> Registry \<Rightarrow> (string \<times> string) list" where
  "spec_getAvailableTimes date r =
     [(dateTime, name doctor).
        doctor \<leftarrow> m_doctors r, dateTime \<leftarrow> spec_slots date,
        dateTime \<notin> fst ` set (appointments doctor)]"


text \<open>The (dateTime, patient name, doctor name) of an element of the global list.\<close>

definition entry_of :: "Appointment \<Rightarrow> string \<times> string \<times> string" where
  "entry_of a = (a_dateTime a, name (a_patient a), name (a_doctor a))"

text \<open>The default bookings as the specification words them: the doctors \<open>lo..<hi\<close> times the
  patients \<open>lo..<hi\<close> of the fresh registry, doctor-major, the \<open>k\<close>-th booking taking the time
  \<open>k\<close> places back (cyclically) from index \<open>start\<close> in the table of eight times.\<close>

definition spec_bookings :: "string \<Rightarrow> int \<Rightarrow> nat \<Rightarrow> nat \<Rightarrow> (string \<times> string \<times> string) list" where
  "spec_bookings date start lo hi =
     map (\<lambda>(k, (i, j)).
            (date @ defaultTime ! nat ((start - int k) mod 8),
             name (m_patients Registry_init ! j), name (m_doctors Registry_init ! i)))
         (enumerate 0 [(i, j). i \<leftarrow> [lo..<hi], j \<leftarrow> [lo..<hi]])"

text \<open>Today: doctors and patients 0..3 from index 0; tomorrow: doctors and patients 4..7
  from index 7.\<close>

definition spec_seed :: "string \<Rightarrow> string \<Rightarrow> (string \<times> string \<times> string) list" where
  "spec_seed today tomorrow = spec_bookings today 0 0 4 @ spec_bookings tomorrow 7 4 8"

text \<open>One iteration of the inner loop of \<^verbatim>\<open>scheduleDefaulteAppointmentsForDate\<close>: an entry
  appended to doctor \<open>i\<close>, to patient \<open>j\<close> and to the global list, with no check.\<close>

definition book :: "string \<Rightarrow> nat \<Rightarrow> nat \<Rightarrow> Registry \<Rightarrow> Registry" where
  "book dateTime i j r =
     (let entry = (dateTime, name (m_patients r ! j), name (m_doctors r ! i));
          doctor1 = (m_doctors r ! i)\<lparr>appointments := appointments (m_doctors r ! i) @ [entry]\<rparr>;
          patient1 = (m_patients r ! j)\<lparr>appointments := appointments (m_patients r ! j) @ [entry]\<rparr>
      in r\<lparr>m_doctors := (m_doctors r)[i := doctor1],
           m_patients := (m_patients r)[j := patient1],
           m_appointments := m_appointments r @ [make_Appointment dateTime doctor1 patient1]\<rparr>)"

text \<open>The (dateTime, doctor index, patient index) of the thirty-two default bookings, in
  order.\<close>

definition seed_plan :: "string \<Rightarrow> string \<Rightarrow> (string \<times> nat \<times> nat) list" where
  "seed_plan today tomorrow =
     map (\<lambda>(k, (i, j)). (today @ defaultTime ! nat ((0 - int k) mod 8), i, j))
         (enumerate 0 [(i, j). i \<leftarrow> [0..<4], j \<leftarrow> [0..<4]]) @
     map (\<lambda>(k, (i, j)). (tomorrow @ defaultTime ! nat ((7 - int k) mod 8), i, j))
         (enumerate 0 [(i, j). i \<leftarrow> [4..<8], j \<leftarrow> [4..<8]])"

definition book_all :: "(string \<times> nat \<times> nat) list \<Rightarrow> Registry \<Rightarrow> Registry" where
  "book_all plan r = foldl (\<lambda>r (dateTime, i, j). book dateTime i j r) r plan"

definition in_plan_range :: "Registry \<Rightarrow> (string \<times> nat \<times> nat) list \<Rightarrow> bool" where
  "in_plan_range r plan =
     list_all (\<lambda>(dateTime, i, j). i < length (m_doctors r) \<and> j < length (m_patients r)) plan"

definition plan_entry :: "Registry \<Rightarrow> string \<times> nat \<times> nat \<Rightarrow> string \<times> string \<times> string" where
  "plan_entry r = (\<lambda>(dateTime, i, j). (dateTime, name (m_patients r ! j), name (m_doctors r ! i)))"

text \<open>The fresh registry after \<^verbatim>\<open>generateDefaultAppointments\<close>.\<close>

definition seeded :: "string \<Rightarrow> string \<Rightarrow> Registry" where
  "seeded today tomorrow = book_all (seed_plan today tomorrow) Registry_init"

section \<open>Sequences of calls and the registry's three views of its appointments\<close>

text \<open>The entries of the persons of a list that carry the person's own name in the given
  position: for the doctors the doctor name of the entry, for the patients the patient
  name.\<close>

definition entries_by :: "(string \<times> string \<times> string \<Rightarrow> string) \<Rightarrow> AbstractPerson list \<Rightarrow> (string \<times> string \<times> string) set" where
  "entries_by key ps = set (concat (map (\<lambda>p. filter (\<lambda>e. key e = name p) (appointments p)) ps))"

definition doctor_entries :: "Registry \<Rightarrow> (string \<times> string \<times> string) set" where
  "doctor_entries r = entries_by (\<lambda>e. snd (snd e)) (m_doctors r)"

definition patient_entries :: "Registry \<Rightarrow> (string \<times> string \<times> string) set" where
  "patient_entries r = entries_by (\<lambda>e. fst (snd e)) (m_patients r)"

definition global_entries :: "Registry \<Rightarrow> (string \<times> string \<times> string) set" where
  "global_entries r = set (map entry_of (m_appointments r))"



text \<open>A call of a public operation of the registry, and the registry it leaves (also when
  it throws).\<close>

datatype call =
    ScheduleAppointment string DoctorRef Patient
  | CancelAppointment string string string
  | AddPatient string string
  | AddHospitalVisitCard Doctor Patient string string
  | PatientExists string
  | FindDoctorByName string
  | FindPatientByName string
  | GetAvailableTimes string
  | GetAvailableTimesForDoctor string string
  | GetAvailableDoctors string
  | GetVisitCardsForPatient Patient

fun exec :: "call \<Rightarrow> Registry \<Rightarrow> Registry" where
  "exec (ScheduleAppointment dateTime doctor patient) r = snd (snd (scheduleAppointment dateTime doctor patient r))"
| "exec (CancelAppointment dateTime patientName doctorName) r = snd (cancelAppointment dateTime patientName doctorName r)"
| "exec (AddPatient nm age) r = snd (addPatient nm age r)"
| "exec (AddHospitalVisitCard doctor patient dateTime diagnosis) r =
     snd (addHospitalVisitCard doctor patient dateTime diagnosis r)"
| "exec (PatientExists nm) r = snd (patientExists nm r)"
| "exec (FindDoctorByName nm) r = snd (findDoctorByName nm r)"
| "exec (FindPatientByName nm) r = snd (findPatientByName nm r)"
| "exec (GetAvailableTimes date) r = snd (getAvailableTimes date r)"
| "exec (GetAvailableTimesForDoctor date doctorName) r = snd (getAvailableTimesForDoctor date doctorName r)"
| "exec (GetAvailableDoctors date) r = snd (getAvailableDoctors date r)"
| "exec (GetVisitCardsForPatient patient) r = snd (getVisitCardsForPatient patient r)"

definition run :: "call list \<Rightarrow> Registry \<Rightarrow> Registry" where
  "run calls r = foldl (\<lambda>r c. exec c r) r calls"







section \<open>Visit cards, query purity and free slots\<close>

lemma visitCards_loop_filter:
  "visitCards_loop p vcs acc = acc @ filter (\<lambda>vc. name (vc_patient vc) = name p) vcs"
  by (induction vcs arbitrary: acc) (simp_all add: getPatientName_def)

text \<open>C9: \<^verbatim>\<open>getVisitCardsForPatient(p)\<close> returns exactly the visit cards whose embedded patient
  name equals the name of \<open>p\<close>, in the order of the visit-card store, and no others; the store's
  order is insertion order, since \<^verbatim>\<open>addHospitalVisitCard\<close> appends at the end.\<close>

theorem getVisitCardsForPatient_exact:
  "fst (getVisitCardsForPatient p r) = filter (\<lambda>vc. name (vc_patient vc) = name p) (m_visitCards r)
   \<and> m_visitCards (snd (addHospitalVisitCard d q dt diag r)) =
       m_visitCards r @ [make_HospitalVisitCard d q dt diag]"
  by (simp add: getVisitCardsForPatient_def visitCards_loop_filter addHospitalVisitCard_def Let_def)

text \<open>C10: the queries \<^verbatim>\<open>patientExists\<close>, \<^verbatim>\<open>getAvailableTimes\<close>,
  \<^verbatim>\<open>getAvailableTimesForDoctor\<close>, \<^verbatim>\<open>getAvailableDoctors\<close> and \<^verbatim>\<open>getVisitCardsForPatient\<close>
  leave the registry as it was: the doctors, patients, appointments and visit cards after
  the call are those before it.\<close>

theorem queries_leave_registry_unchanged:
  "snd (patientExists nm r) = r \<and>
   snd (getAvailableTimes date r) = r \<and>
   snd (getAvailableTimesForDoctor date doctorName r) = r \<and>
   snd (getAvailableDoctors date r) = r \<and>
   snd (getVisitCardsForPatient p r) = r"
  by (simp add: patientExists_def getAvailableTimes_def getAvailableTimesForDoctor_def
      getAvailableDoctors_def getVisitCardsForPatient_def)

lemma isAvailable_scan_iff: "isAvailable_scan dt apps \<longleftrightarrow> dt \<notin> fst ` set apps"
  by (induction apps) auto

lemma isAvailable_iff: "isAvailable dt d \<longleftrightarrow> dt \<notin> fst ` set (appointments d)"
  by (simp add: isAvailable_def isAvailable_scan_iff)

lemma spec_slots_literal:
  "spec_slots date = map (\<lambda>t. date @ '' '' @ t)
     [''08:00'', ''08:30'', ''09:00'', ''09:30'', ''10:00'', ''10:30'', ''11:00'', ''11:30'',
      ''12:00'', ''12:30'', ''13:00'', ''13:30'', ''14:00'', ''14:30'', ''15:00'', ''15:30'',
      ''16:00'', ''16:30'', ''17:00'', ''17:30'']"
  by (simp add: spec_slots_def two_digits_def upt_rec)

lemma snprintf_time_slots:
  "concat (map (\<lambda>hour. [snprintf_time hour 0, snprintf_time hour 30]) [8..17]) =
     [''08:00'', ''08:30'', ''09:00'', ''09:30'', ''10:00'', ''10:30'', ''11:00'', ''11:30'',
      ''12:00'', ''12:30'', ''13:00'', ''13:30'', ''14:00'', ''14:30'', ''15:00'', ''15:30'',
      ''16:00'', ''16:30'', ''17:00'', ''17:30'']"
  by code_simp

lemma source_slots:
  "concat (map (\<lambda>hour. [date @ '' '' @ snprintf_time hour 0, date @ '' '' @ snprintf_time hour 30]) [8..17])
     = spec_slots date"
proof -
  have "concat (map (\<lambda>hour. [date @ '' '' @ snprintf_time hour 0, date @ '' '' @ snprintf_time hour 30]) hs)
        = map (\<lambda>t. date @ '' '' @ t) (concat (map (\<lambda>hour. [snprintf_time hour 0, snprintf_time hour 30]) hs))"
    for hs
    by (induction hs) simp_all
  then show ?thesis
    by (simp only: snprintf_time_slots spec_slots_literal)
qed

lemma minute_loop_0:
  "minute_loop date d h 0 acc =
     acc @ map (\<lambda>dt. (dt, name d))
            (filter (\<lambda>dt. isAvailable dt d)
               [date @ '' '' @ snprintf_time h 0, date @ '' '' @ snprintf_time h 30])"
  by (simp add: minute_loop.simps APPOINTMENT_DURATION_def Let_def)

lemma hour_loop_upto:
  "hour_loop date d h acc =
     acc @ map (\<lambda>dt. (dt, name d))
            (filter (\<lambda>dt. isAvailable dt d)
               (concat (map (\<lambda>hour. [date @ '' '' @ snprintf_time hour 0,
                                      date @ '' '' @ snprintf_time hour 30]) [h..17])))"
proof (induction date d h acc rule: hour_loop.induct)
  case (1 date doctor hour availableTimes)
  show ?case
  proof (cases "hour < WORK_END_HOUR")
    case True
    then have "[hour..17] = hour # [hour + 1..17]"
      by (simp add: WORK_END_HOUR_def upto_rec1)
    with True 1 show ?thesis
      by (subst hour_loop.simps) (simp add: minute_loop_0)
  next
    case False
    then show ?thesis
      by (subst hour_loop.simps) (simp add: WORK_END_HOUR_def)
  qed
qed

lemma hour_loop_spec:
  "hour_loop date d WORK_START_HOUR acc =
     acc @ map (\<lambda>dt. (dt, name d)) (filter (\<lambda>dt. dt \<notin> fst ` set (appointments d)) (spec_slots date))"
  unfolding WORK_START_HOUR_def hour_loop_upto source_slots by (simp add: isAvailable_iff)

lemma doctors_loop_spec:
  "doctors_loop date ds acc =
     acc @ concat (map (\<lambda>d. map (\<lambda>dt. (dt, name d))
                               (filter (\<lambda>dt. dt \<notin> fst ` set (appointments d)) (spec_slots date))) ds)"
  by (induction ds arbitrary: acc) (simp_all add: hour_loop_spec)

lemma spec_getAvailableTimes_concat:
  "spec_getAvailableTimes date r =
     concat (map (\<lambda>d. map (\<lambda>dt. (dt, name d))
                         (filter (\<lambda>dt. dt \<notin> fst ` set (appointments d)) (spec_slots date)))
                 (m_doctors r))"
proof -
  have "concat (map (\<lambda>dt. if dt \<notin> fst ` set (appointments d) then [(dt, name d)] else []) xs)
        = map (\<lambda>dt. (dt, name d)) (filter (\<lambda>dt. dt \<notin> fst ` set (appointments d)) xs)" for d :: Doctor and xs
    by (induction xs) simp_all
  then show ?thesis
    by (simp add: spec_getAvailableTimes_def)
qed

text \<open>C3: for every date and every registry, \<^verbatim>\<open>getAvailableTimes(date)\<close> returns exactly the
  pairs (date, a space, \<^verbatim>\<open>HH:MM\<close>; doctor name) for each doctor and each slot with hour in
  8..17 and minute 0 or 30 at which the doctor has no appointment with that very dateTime,
  doctors in registry order and, for each doctor, slots in ascending time.\<close>

theorem getAvailableTimes_exact:
  "fst (getAvailableTimes date r) = spec_getAvailableTimes date r"
  by (simp add: getAvailableTimes_def doctors_loop_spec spec_getAvailableTimes_concat)

section \<open>Registering patients\<close>

lemma Patient_sel [simp]:
  "name (Patient nm dob) = nm" "dateOfBirth (Patient nm dob) = dob" "appointments (Patient nm dob) = []"
  by (simp_all add: Patient_def)

lemma Doctor_sel [simp]:
  "name (Doctor nm) = nm" "dateOfBirth (Doctor nm) = []" "appointments (Doctor nm) = []"
  by (simp_all add: Doctor_def)

lemma addAppointment_sel [simp]:
  "name (addAppointment dt pn dn p) = name p"
  "dateOfBirth (addAppointment dt pn dn p) = dateOfBirth p"
  "appointments (addAppointment dt pn dn p) = appointments p @ [(dt, pn, dn)]"
  by (simp_all add: addAppointment_def)

lemma deleteAppointment_sel [simp]:
  "name (deleteAppointment dt pn dn p) = name p"
  "dateOfBirth (deleteAppointment dt pn dn p) = dateOfBirth p"
  "appointments (deleteAppointment dt pn dn p) = filter (\<lambda>e. e \<noteq> (dt, pn, dn)) (appointments p)"
  by (auto simp: deleteAppointment_def remove_if_def intro!: filter_cong)

lemma find_name_Some:
  "find_name nm ps = Some i \<Longrightarrow> i < length ps \<and> name (ps ! i) = nm"
proof (induction ps arbitrary: i)
  case Nil
  then show ?case by simp
next
  case (Cons p ps)
  then show ?case by (auto split: if_splits)
qed

lemma find_name_first:
  "find_name nm ps = Some i \<Longrightarrow> k < i \<Longrightarrow> name (ps ! k) \<noteq> nm"
proof (induction ps arbitrary: i k)
  case Nil
  then show ?case by simp
next
  case (Cons p ps)
  then show ?case by (cases k) (auto split: if_splits)
qed

lemma find_name_None: "find_name nm ps = None \<longleftrightarrow> nm \<notin> name ` set ps"
  by (induction ps) auto

lemma patientExists_scan_iff: "patientExists_scan nm ps \<longleftrightarrow> nm \<in> name ` set ps"
  by (induction ps) auto

lemma find_name_exists: "patientExists_scan nm ps \<Longrightarrow> \<exists>j. find_name nm ps = Some j"
  using find_name_None [of nm ps] by (cases "find_name nm ps") (auto simp: patientExists_scan_iff)

lemma filter_name_distinct:
  "distinct (map name ps) \<Longrightarrow> j < length ps \<Longrightarrow> filter (\<lambda>p. name p = name (ps ! j)) ps = [ps ! j]"
proof (induction ps arbitrary: j)
  case Nil
  then show ?case by simp
next
  case (Cons p ps)
  show ?case
  proof (cases j)
    case 0
    from Cons.prems have "name p \<notin> name ` set ps"
      by simp
    then have "\<forall>q\<in>set ps. name q \<noteq> name p"
      by (metis imageI)
    then have "filter (\<lambda>q. name q = name p) ps = []"
      by (simp add: filter_empty_conv)
    with 0 show ?thesis by simp
  next
    case (Suc j')
    with Cons.prems have "name p \<noteq> name (ps ! j')"
      by (metis distinct.simps(2) image_eqI length_Cons list.map(2) list.set_map not_less_eq nth_mem less_Suc_eq_le Suc_le_eq)
    with Suc Cons show ?thesis by simp
  qed
qed

lemma addPatient_new:
  "\<not> patientExists_scan nm (m_patients r) \<Longrightarrow>
   addPatient nm dob r =
     (([''Patient '' @ nm @ '' added to the registry.''], Inr (Patient nm dob)),
      r\<lparr>m_patients := m_patients r @ [Patient nm dob]\<rparr>)"
  by (simp add: addPatient_def patientExists_def Let_def)

lemma addPatient_existing:
  "find_name nm (m_patients r) = Some j \<Longrightarrow>
   addPatient nm dob r =
     (([''Patient '' @ nm @ '' already exists.''], Inr (m_patients r ! j)), r)"
  using find_name_None [of nm "m_patients r"]
  by (simp add: addPatient_def patientExists_def findPatientByName_def Let_def patientExists_scan_iff)

lemma find_name_append_new:
  "find_name nm ps = None \<Longrightarrow> name p = nm \<Longrightarrow> find_name nm (ps @ [p]) = Some (length ps)"
  by (induction ps) (auto split: if_splits)

text \<open>C7, amended: in a registry whose patients have pairwise different names,
  \<^verbatim>\<open>addPatient(name, dob1)\<close> followed by \<^verbatim>\<open>addPatient(name, dob2)\<close> leaves exactly one patient
  with that name; it is the patient registered under the name before the first call when
  there was one (the stored date of birth is then the earlier one), and \<open>Patient name dob1\<close>
  otherwise.  The second call changes nothing and returns a copy of that patient.\<close>

theorem addPatient_first_registration_wins:
  assumes "distinct (map name (m_patients r))"
  shows "let r1 = snd (addPatient nm dob1 r);
             second = addPatient nm dob2 r1;
             named = filter (\<lambda>p. name p = nm) (m_patients (snd second))
         in length named = 1 \<and>
            named = (if fst (patientExists nm r) then filter (\<lambda>p. name p = nm) (m_patients r)
                     else [Patient nm dob1]) \<and>
            snd second = r1 \<and>
            length (m_patients r1) = (if fst (patientExists nm r) then length (m_patients r)
                                      else length (m_patients r) + 1) \<and>
            snd (fst second) = Inr (hd named)"
proof (cases "patientExists_scan nm (m_patients r)")
  case True
  then obtain j where j: "find_name nm (m_patients r) = Some j"
    using find_name_exists by blast
  then have jn: "j < length (m_patients r)" "name (m_patients r ! j) = nm"
    using find_name_Some by blast+
  have f: "filter (\<lambda>p. name p = nm) (m_patients r) = [m_patients r ! j]"
    using filter_name_distinct [OF assms jn(1)] jn(2) by simp
  show ?thesis
    using True by (simp add: addPatient_existing [OF j] f patientExists_def)
next
  case False
  let ?r1 = "r\<lparr>m_patients := m_patients r @ [Patient nm dob1]\<rparr>"
  have none: "filter (\<lambda>p. name p = nm) (m_patients r) = []"
    using False by (auto simp: patientExists_scan_iff filter_empty_conv)
  have "find_name nm (m_patients r) = None"
    using False by (simp add: find_name_None patientExists_scan_iff)
  then have j: "find_name nm (m_patients ?r1) = Some (length (m_patients r))"
    by (simp add: find_name_append_new)
  show ?thesis
    using False
    by (simp add: addPatient_new addPatient_existing [OF j] none patientExists_def Let_def)
qed

text \<open>The theorem at a name that the fresh registry does not hold.\<close>

theorem addPatient_first_registration_wins_witness:
  "distinct (map name (m_patients Registry_init)) \<and>
   \<not> fst (patientExists ''Zoe Quinn'' Registry_init) \<and>
   (let r1 = snd (addPatient ''Zoe Quinn'' ''01.01.2000'' Registry_init);
        second = addPatient ''Zoe Quinn'' ''02.02.2002'' r1;
        named = filter (\<lambda>p. name p = ''Zoe Quinn'') (m_patients (snd second))
    in named = [Patient ''Zoe Quinn'' ''01.01.2000''] \<and>
       snd second = r1 \<and>
       snd (fst second) = Inr (Patient ''Zoe Quinn'' ''01.01.2000''))"
proof -
  have d: "distinct (map name (m_patients Registry_init))"
    by (simp add: Registry_init_def)
  have e: "\<not> fst (patientExists ''Zoe Quinn'' Registry_init)"
    by (simp add: patientExists_def Registry_init_def)
  show ?thesis
    using d e addPatient_first_registration_wins [OF d, of "''Zoe Quinn''" "''01.01.2000''" "''02.02.2002''"]
    by (auto simp: Let_def)
qed

text \<open>C7 as stated fails for a name the registry already holds: after
  \<^verbatim>\<open>addPatient("Alice Smith", "01.01.2000")\<close> and \<^verbatim>\<open>addPatient("Alice Smith", "02.02.2002")\<close>
  on the fresh registry the stored date of birth is the seeded one, not the first call's.\<close>

theorem addPatient_seeded_name_counterexample:
  "map dateOfBirth
     (filter (\<lambda>p. name p = ''Alice Smith'')
        (m_patients (snd (addPatient ''Alice Smith'' ''02.02.2002''
                            (snd (addPatient ''Alice Smith'' ''01.01.2000'' Registry_init))))))
   = [''23.08.1997''] \<and> ''23.08.1997'' \<noteq> ''01.01.2000''"
  by (simp add: addPatient_def patientExists_def findPatientByName_def Registry_init_def Patient_def Let_def)

section \<open>Cancellation\<close>

lemma findDoctorByName_simps:
  "find_name nm (m_doctors r) = Some i \<Longrightarrow> findDoctorByName nm r = (Inr i, r)"
  "find_name nm (m_doctors r) = None \<Longrightarrow> findDoctorByName nm r = (Inl (runtime_error ''Doctor not found.''), r)"
  by (simp_all add: findDoctorByName_def)

lemma findPatientByName_simps:
  "find_name nm (m_patients r) = Some j \<Longrightarrow> findPatientByName nm r = (Inr j, r)"
  "find_name nm (m_patients r) = None \<Longrightarrow> findPatientByName nm r = (Inl (runtime_error ''Patient not found.''), r)"
  by (simp_all add: findPatientByName_def)














section \<open>Booking\<close>


lemma store_frame [simp]:
  "m_patients (snd (store dref d1 r)) = m_patients r"
  "m_appointments (snd (store dref d1 r)) = m_appointments r"
  "m_visitCards (snd (store dref d1 r)) = m_visitCards r"
  by (cases dref; simp)+

lemma addAppointment_record:
  "addAppointment dt pn dn p = p\<lparr>appointments := appointments p @ [(dt, pn, dn)]\<rparr>"
  by (simp add: addAppointment_def)




section \<open>Default appointments\<close>

lemma spec_seed_literal:
  "spec_seed today tomorrow =
    [(today @ '' 17:00'', ''Alice Smith'', ''John Smith''),
     (today @ '' 10:00'', ''Bob Johnson'', ''John Smith''),
     (today @ '' 15:00'', ''Charlie Brown'', ''John Smith''),
     (today @ '' 09:00'', ''Diana Davis'', ''John Smith''),
     (today @ '' 13:30'', ''Alice Smith'', ''Emily Johnson''),
     (today @ '' 14:00'', ''Bob Johnson'', ''Emily Johnson''),
     (today @ '' 08:30'', ''Charlie Brown'', ''Emily Johnson''),
     (today @ '' 12:30'', ''Diana Davis'', ''Emily Johnson''),
     (today @ '' 17:00'', ''Alice Smith'', ''David Brown''),
     (today @ '' 10:00'', ''Bob Johnson'', ''David Brown''),
     (today @ '' 15:00'', ''Charlie Brown'', ''David Brown''),
     (today @ '' 09:00'', ''Diana Davis'', ''David Brown''),
     (today @ '' 13:30'', ''Alice Smith'', ''Sarah Lee''),
     (today @ '' 14:00'', ''Bob Johnson'', ''Sarah Lee''),
     (today @ '' 08:30'', ''Charlie Brown'', ''Sarah Lee''),
     (today @ '' 12:30'', ''Diana Davis'', ''Sarah Lee''),
     (tomorrow @ '' 10:00'', ''Eva Martinez'', ''Michael Wilson''),
     (tomorrow @ '' 15:00'', ''Frank Lopez'', ''Michael Wilson''),
     (tomorrow @ '' 09:00'', ''Grace Lee'', ''Michael Wilson''),
     (tomorrow @ '' 13:30'', ''Henry Jackson'', ''Michael Wilson''),
     (tomorrow @ '' 14:00'', ''Eva Martinez'', ''Alexandra Garcia''),
     (tomorrow @ '' 08:30'', ''Frank Lopez'', ''Alexandra Garcia''),
     (tomorrow @ '' 12:30'', ''Grace Lee'', ''Alexandra Garcia''),
     (tomorrow @ '' 17:00'', ''Henry Jackson'', ''Alexandra Garcia''),
     (tomorrow @ '' 10:00'', ''Eva Martinez'', ''Matthew Taylor''),
     (tomorrow @ '' 15:00'', ''Frank Lopez'', ''Matthew Taylor''),
     (tomorrow @ '' 09:00'', ''Grace Lee'', ''Matthew Taylor''),
     (tomorrow @ '' 13:30'', ''Henry Jackson'', ''Matthew Taylor''),
     (tomorrow @ '' 14:00'', ''Eva Martinez'', ''Olivia Martinez''),
     (tomorrow @ '' 08:30'', ''Frank Lopez'', ''Olivia Martinez''),
     (tomorrow @ '' 12:30'', ''Grace Lee'', ''Olivia Martinez''),
     (tomorrow @ '' 17:00'', ''Henry Jackson'', ''Olivia Martinez'')]"
  by (simp add: spec_seed_def spec_bookings_def upt_rec defaultTime_def Registry_init_def enumerate_eq_zip)

lemma book_length [simp]:
  "length (m_doctors (book dt i j r)) = length (m_doctors r)"
  "length (m_patients (book dt i j r)) = length (m_patients r)"
  by (simp_all add: book_def Let_def)

lemma patients_loop_step:
  "j < patientCount \<Longrightarrow> 0 \<le> idx \<Longrightarrow> idx < 8 \<Longrightarrow> 0 \<le> i \<Longrightarrow> i < int (length (m_doctors r)) \<Longrightarrow>
   0 \<le> j \<Longrightarrow> j < int (length (m_patients r)) \<Longrightarrow>
   default_patients_loop date i j patientCount idx r =
     default_patients_loop date i (j + 1) patientCount
       (((idx - 1 + int (length defaultTime)) mod 2 ^ 64) mod int (length defaultTime))
       (book (date @ defaultTime ! nat idx) (nat i) (nat j) r)"
  by (subst default_patients_loop.simps)
     (simp add: in_range_def Let_def book_def addAppointment_record defaultTime_def)

lemma patients_loop_done:
  "\<not> j < patientCount \<Longrightarrow> default_patients_loop date i j patientCount idx r = Some (idx, r)"
  by (subst default_patients_loop.simps) simp

lemma doctors_loop_step:
  "i < doctorCount \<Longrightarrow>
   default_doctors_loop date i doctorCount patientCount startIndex idx r =
     (case default_patients_loop date i startIndex patientCount idx r of
        None \<Rightarrow> None
      | Some (idx1, r1) \<Rightarrow> default_doctors_loop date (i + 1) doctorCount patientCount startIndex idx1 r1)"
  by (subst default_doctors_loop.simps) simp

lemma doctors_loop_done:
  "\<not> i < doctorCount \<Longrightarrow>
   default_doctors_loop date i doctorCount patientCount startIndex idx r = Some r"
  by (subst default_doctors_loop.simps) simp

lemma seed_plan_literal:
  "seed_plan today tomorrow =
    [(today @ '' 17:00'', 0, 0), (today @ '' 10:00'', 0, 1), (today @ '' 15:00'', 0, 2), (today @ '' 09:00'', 0, 3),
     (today @ '' 13:30'', 1, 0), (today @ '' 14:00'', 1, 1), (today @ '' 08:30'', 1, 2), (today @ '' 12:30'', 1, 3),
     (today @ '' 17:00'', 2, 0), (today @ '' 10:00'', 2, 1), (today @ '' 15:00'', 2, 2), (today @ '' 09:00'', 2, 3),
     (today @ '' 13:30'', 3, 0), (today @ '' 14:00'', 3, 1), (today @ '' 08:30'', 3, 2), (today @ '' 12:30'', 3, 3),
     (tomorrow @ '' 10:00'', 4, 4), (tomorrow @ '' 15:00'', 4, 5), (tomorrow @ '' 09:00'', 4, 6), (tomorrow @ '' 13:30'', 4, 7),
     (tomorrow @ '' 14:00'', 5, 4), (tomorrow @ '' 08:30'', 5, 5), (tomorrow @ '' 12:30'', 5, 6), (tomorrow @ '' 17:00'', 5, 7),
     (tomorrow @ '' 10:00'', 6, 4), (tomorrow @ '' 15:00'', 6, 5), (tomorrow @ '' 09:00'', 6, 6), (tomorrow @ '' 13:30'', 6, 7),
     (tomorrow @ '' 14:00'', 7, 4), (tomorrow @ '' 08:30'', 7, 5), (tomorrow @ '' 12:30'', 7, 6), (tomorrow @ '' 17:00'', 7, 7)]"
  by (simp add: seed_plan_def upt_rec defaultTime_def enumerate_eq_zip)

lemma today_rows:
  assumes "length (m_doctors r) = 8" and "length (m_patients r) = 8"
  shows "default_doctors_loop today 0 4 4 0 0 r =
           Some (book_all (take 16 (seed_plan today tomorrow)) r)"
  unfolding seed_plan_literal book_all_def
  using assms
  by (simp add: doctors_loop_step doctors_loop_done patients_loop_step patients_loop_done defaultTime_def)

lemma tomorrow_rows:
  assumes "length (m_doctors r) = 8" and "length (m_patients r) = 8"
  shows "default_doctors_loop tomorrow 4 8 8 4 7 r =
           Some (book_all (drop 16 (seed_plan today tomorrow)) r)"
  unfolding seed_plan_literal book_all_def
  using assms
  by (simp add: doctors_loop_step doctors_loop_done patients_loop_step patients_loop_done defaultTime_def)

lemma map_update_same: "map f (xs[i := x]) = map f xs" if "f x = f (xs ! i)"
proof (cases "i < length xs")
  case True
  with that show ?thesis by (simp add: map_update list_update_same_conv)
next
  case False
  then have "xs[i := x] = xs" by (intro list_update_beyond) simp
  then show ?thesis by simp
qed

lemma book_frame [simp]:
  "m_visitCards (book dt i j r) = m_visitCards r"
  "map name (m_doctors (book dt i j r)) = map name (m_doctors r)"
  "map name (m_patients (book dt i j r)) = map name (m_patients r)"
  "map dateOfBirth (m_doctors (book dt i j r)) = map dateOfBirth (m_doctors r)"
  "map dateOfBirth (m_patients (book dt i j r)) = map dateOfBirth (m_patients r)"
  by (simp_all add: book_def Let_def map_update_same)

lemma book_entries:
  "map entry_of (m_appointments (book dt i j r)) =
     map entry_of (m_appointments r) @ [plan_entry r (dt, i, j)]"
  by (simp add: book_def Let_def entry_of_def make_Appointment_def plan_entry_def)

lemma book_doctor_lists:
  "map appointments (m_doctors (book dt i j r)) =
     (map appointments (m_doctors r))[i := appointments (m_doctors r ! i) @ [plan_entry r (dt, i, j)]]"
  by (simp add: book_def Let_def map_update plan_entry_def)

lemma book_patient_lists:
  "map appointments (m_patients (book dt i j r)) =
     (map appointments (m_patients r))[j := appointments (m_patients r ! j) @ [plan_entry r (dt, i, j)]]"
  by (simp add: book_def Let_def map_update plan_entry_def)

lemma name_nth: "map name xs = map name ys \<Longrightarrow> k < length xs \<Longrightarrow> name (xs ! k) = name (ys ! k)"
  by (metis length_map nth_map)

lemma plan_entry_book:
  "i' < length (m_doctors r) \<Longrightarrow> j' < length (m_patients r) \<Longrightarrow>
   plan_entry (book dt i j r) (dt', i', j') = plan_entry r (dt', i', j')"
  using name_nth [of "m_doctors (book dt i j r)" "m_doctors r" i']
        name_nth [of "m_patients (book dt i j r)" "m_patients r" j']
  by (simp add: plan_entry_def)

lemma in_plan_range_book [simp]: "in_plan_range (book dt i j r) plan = in_plan_range r plan"
  by (simp add: in_plan_range_def)

lemma plan_entries_book:
  "in_plan_range r plan \<Longrightarrow> map (plan_entry (book dt i j r)) plan = map (plan_entry r) plan"
  by (induction plan) (auto simp: in_plan_range_def plan_entry_book)

lemma book_all_Cons: "book_all ((dt, i, j) # plan) r = book_all plan (book dt i j r)"
  by (simp add: book_all_def)

lemma book_all_Nil [simp]: "book_all [] r = r"
  by (simp add: book_all_def)

lemma book_all_append: "book_all (p @ q) r = book_all q (book_all p r)"
  by (simp add: book_all_def)

lemma book_all_frame:
  "m_visitCards (book_all plan r) = m_visitCards r \<and>
   map name (m_doctors (book_all plan r)) = map name (m_doctors r) \<and>
   map name (m_patients (book_all plan r)) = map name (m_patients r) \<and>
   map dateOfBirth (m_doctors (book_all plan r)) = map dateOfBirth (m_doctors r) \<and>
   map dateOfBirth (m_patients (book_all plan r)) = map dateOfBirth (m_patients r)"
proof (induction plan arbitrary: r)
  case Nil
  show ?case by simp
next
  case (Cons p plan)
  obtain dt i j where p: "p = (dt, i, j)" by (cases p)
  show ?case unfolding p book_all_Cons using Cons [of "book dt i j r"] by simp
qed

lemma book_all_length [simp]:
  "length (m_doctors (book_all plan r)) = length (m_doctors r)"
  "length (m_patients (book_all plan r)) = length (m_patients r)"
  using book_all_frame [of plan r] by (metis length_map)+

lemma book_all_entries:
  "in_plan_range r plan \<Longrightarrow>
   map entry_of (m_appointments (book_all plan r)) =
     map entry_of (m_appointments r) @ map (plan_entry r) plan"
proof (induction plan arbitrary: r)
  case Nil
  show ?case by simp
next
  case (Cons p plan)
  obtain dt i j where p: "p = (dt, i, j)" by (cases p)
  from Cons.prems have rest: "in_plan_range r plan"
    by (simp add: in_plan_range_def)
  then have "in_plan_range (book dt i j r) plan" by simp
  from Cons.IH [OF this] show ?case
    unfolding p book_all_Cons by (simp add: book_entries plan_entries_book [OF rest])
qed

lemma book_all_doctor_lists:
  "in_plan_range r plan \<Longrightarrow> k < length (m_doctors r) \<Longrightarrow>
   appointments (m_doctors (book_all plan r) ! k) =
     appointments (m_doctors r ! k) @ map (plan_entry r) (filter (\<lambda>(dt, i, j). i = k) plan)"
proof (induction plan arbitrary: r)
  case Nil
  show ?case by simp
next
  case (Cons p plan)
  obtain dt i j where p: "p = (dt, i, j)" by (cases p)
  from Cons.prems have rest: "in_plan_range r plan" and i: "i < length (m_doctors r)"
    by (simp_all add: in_plan_range_def p)
  then have range': "in_plan_range (book dt i j r) plan" by simp
  have k': "k < length (m_doctors (book dt i j r))" using Cons.prems by simp
  have step: "appointments (m_doctors (book dt i j r) ! k) =
     (if i = k then appointments (m_doctors r ! k) @ [plan_entry r (dt, i, j)] else appointments (m_doctors r ! k))"
    using Cons.prems(2) i by (simp add: book_def Let_def plan_entry_def)
  have pe: "map (plan_entry (book dt i j r)) (filter (\<lambda>(dt, i, j). i = k) plan) =
            map (plan_entry r) (filter (\<lambda>(dt, i, j). i = k) plan)"
    using rest by (intro plan_entries_book) (simp add: in_plan_range_def list_all_iff)
  have IH: "appointments (m_doctors (book_all plan (book dt i j r)) ! k) =
     appointments (m_doctors (book dt i j r) ! k) @
     map (plan_entry (book dt i j r)) (filter (\<lambda>(dt, i, j). i = k) plan)"
    using range' k' by (rule Cons.IH)
  show ?case
    unfolding p book_all_Cons IH step pe by simp
qed

lemma book_all_patient_lists:
  "in_plan_range r plan \<Longrightarrow> k < length (m_patients r) \<Longrightarrow>
   appointments (m_patients (book_all plan r) ! k) =
     appointments (m_patients r ! k) @ map (plan_entry r) (filter (\<lambda>(dt, i, j). j = k) plan)"
proof (induction plan arbitrary: r)
  case Nil
  show ?case by simp
next
  case (Cons p plan)
  obtain dt i j where p: "p = (dt, i, j)" by (cases p)
  from Cons.prems have rest: "in_plan_range r plan" and j: "j < length (m_patients r)"
    by (simp_all add: in_plan_range_def p)
  then have range': "in_plan_range (book dt i j r) plan" by simp
  have k': "k < length (m_patients (book dt i j r))" using Cons.prems by simp
  have step: "appointments (m_patients (book dt i j r) ! k) =
     (if j = k then appointments (m_patients r ! k) @ [plan_entry r (dt, i, j)] else appointments (m_patients r ! k))"
    using Cons.prems(2) j by (simp add: book_def Let_def plan_entry_def)
  have pe: "map (plan_entry (book dt i j r)) (filter (\<lambda>(dt, i, j). j = k) plan) =
            map (plan_entry r) (filter (\<lambda>(dt, i, j). j = k) plan)"
    using rest by (intro plan_entries_book) (simp add: in_plan_range_def list_all_iff)
  have IH: "appointments (m_patients (book_all plan (book dt i j r)) ! k) =
     appointments (m_patients (book dt i j r) ! k) @
     map (plan_entry (book dt i j r)) (filter (\<lambda>(dt, i, j). j = k) plan)"
    using range' k' by (rule Cons.IH)
  show ?case
    unfolding p book_all_Cons IH step pe by simp
qed

lemma generateDefaultAppointments_book_all:
  assumes "length (m_doctors r) = 8" and "length (m_patients r) = 8"
  shows "generateDefaultAppointments today tomorrow r = Some (book_all (seed_plan today tomorrow) r)"
proof -
  let ?plan = "seed_plan today tomorrow"
  have "book_all ?plan r = book_all (drop 16 ?plan) (book_all (take 16 ?plan) r)"
    by (metis append_take_drop_id book_all_append)
  moreover have "default_doctors_loop tomorrow 4 8 8 4 7 (book_all (take 16 ?plan) r) =
           Some (book_all (drop 16 ?plan) (book_all (take 16 ?plan) r))"
    by (rule tomorrow_rows) (simp_all add: assms)
  ultimately show ?thesis
    using assms today_rows [OF assms, of today tomorrow]
    by (simp add: generateDefaultAppointments_def scheduleDefaulteAppointmentsForDate_def)
qed

lemma book_all_doctor_lists_map:
  assumes "in_plan_range r plan"
  shows "map appointments (m_doctors (book_all plan r)) =
     map (\<lambda>k. appointments (m_doctors r ! k) @ map (plan_entry r) (filter (\<lambda>(dt, i, j). i = k) plan))
         [0..<length (m_doctors r)]"
  by (rule nth_equalityI) (simp_all add: book_all_doctor_lists [OF assms])

lemma book_all_patient_lists_map:
  assumes "in_plan_range r plan"
  shows "map appointments (m_patients (book_all plan r)) =
     map (\<lambda>k. appointments (m_patients r ! k) @ map (plan_entry r) (filter (\<lambda>(dt, i, j). j = k) plan))
         [0..<length (m_patients r)]"
  by (rule nth_equalityI) (simp_all add: book_all_patient_lists [OF assms])

lemma seed_plan_in_range:
  "length (m_doctors r) = 8 \<Longrightarrow> length (m_patients r) = 8 \<Longrightarrow> in_plan_range r (seed_plan today tomorrow)"
  by (simp add: in_plan_range_def seed_plan_literal)

lemma Registry_init_lengths [simp]:
  "length (m_doctors Registry_init) = 8" "length (m_patients Registry_init) = 8"
  by (simp_all add: Registry_init_def)

lemma seed_plan_entries_init:
  "map (plan_entry Registry_init) (seed_plan today tomorrow) = spec_seed today tomorrow"
  unfolding seed_plan_literal spec_seed_literal
  by (simp add: plan_entry_def Registry_init_def)

lemma generateDefaultAppointments_init:
  "generateDefaultAppointments today tomorrow Registry_init = Some (seeded today tomorrow)"
  by (simp add: generateDefaultAppointments_book_all seeded_def)

lemma seeded_entries:
  "map entry_of (m_appointments (seeded today tomorrow)) = spec_seed today tomorrow"
  unfolding seeded_def
  by (simp add: book_all_entries seed_plan_in_range seed_plan_entries_init) (simp add: Registry_init_def)

lemma seeded_doctor_lists:
  "map appointments (m_doctors (seeded today tomorrow)) =
     map (\<lambda>d. filter (\<lambda>e. snd (snd e) = name d) (spec_seed today tomorrow)) (m_doctors Registry_init)"
  unfolding seeded_def
  apply (simp add: book_all_doctor_lists_map seed_plan_in_range)
  unfolding seed_plan_literal spec_seed_literal
  apply (simp add: upt_rec plan_entry_def Registry_init_def)
  done

lemma seeded_patient_lists:
  "map appointments (m_patients (seeded today tomorrow)) =
     map (\<lambda>p. filter (\<lambda>e. fst (snd e) = name p) (spec_seed today tomorrow)) (m_patients Registry_init)"
  unfolding seeded_def
  apply (simp add: book_all_patient_lists_map seed_plan_in_range)
  unfolding seed_plan_literal spec_seed_literal
  apply (simp add: upt_rec plan_entry_def Registry_init_def)
  done

lemma seeded_frame:
  "m_visitCards (seeded today tomorrow) = [] \<and>
   map name (m_doctors (seeded today tomorrow)) = map name (m_doctors Registry_init) \<and>
   map name (m_patients (seeded today tomorrow)) = map name (m_patients Registry_init) \<and>
   map dateOfBirth (m_doctors (seeded today tomorrow)) = map dateOfBirth (m_doctors Registry_init) \<and>
   map dateOfBirth (m_patients (seeded today tomorrow)) = map dateOfBirth (m_patients Registry_init)"
  unfolding seeded_def using book_all_frame [of "seed_plan today tomorrow" Registry_init]
  by (simp add: Registry_init_def)

lemma seeded_twice:
  "map_option (\<lambda>r. map entry_of (m_appointments r))
     (generateDefaultAppointments today tomorrow (seeded today tomorrow))
   = Some (spec_seed today tomorrow @ spec_seed today tomorrow)"
proof -
  let ?r = "seeded today tomorrow"
  have len: "length (m_doctors ?r) = 8" "length (m_patients ?r) = 8"
    by (simp_all add: seeded_def)
  have names: "map (plan_entry ?r) (seed_plan today tomorrow) = map (plan_entry Registry_init) (seed_plan today tomorrow)"
  proof (rule map_cong [OF refl])
    fix p assume p: "p \<in> set (seed_plan today tomorrow)"
    obtain dt i j where pe: "p = (dt, i, j)" by (cases p)
    have "in_plan_range Registry_init (seed_plan today tomorrow)"
      by (simp add: seed_plan_in_range)
    with p pe have "i < 8" "j < 8"
      by (auto simp: in_plan_range_def list_all_iff)
    then show "plan_entry ?r p = plan_entry Registry_init p"
      using seeded_frame [of today tomorrow]
            name_nth [of "m_doctors ?r" "m_doctors Registry_init" i]
            name_nth [of "m_patients ?r" "m_patients Registry_init" j] len
      by (simp add: pe plan_entry_def)
  qed
  show ?thesis
    by (simp add: generateDefaultAppointments_book_all [OF len] book_all_entries seed_plan_in_range len
        names seed_plan_entries_init seeded_entries)
qed

text \<open>C8: run on a fresh registry, the default-seed generator is a function of the two date
  strings: its global list is, in order, the bookings of doctors 0..3 with patients 0..3
  at today's date with the times taken backwards from index 0 of the table, then those of
  doctors 4..7 with patients 4..7 at tomorrow's date with the times taken backwards from
  index 7 (wrapping); every doctor's and every patient's list holds exactly their bookings
  in that order; names, dates of birth and visit cards are as before.  There is no
  availability check: run a second time, it appends the same bookings again.\<close>

theorem generateDefaultAppointments_fresh:
  "map_option (\<lambda>r. map entry_of (m_appointments r))
     (generateDefaultAppointments today tomorrow Registry_init) = Some (spec_seed today tomorrow) \<and>
   map_option (\<lambda>r. map appointments (m_doctors r))
     (generateDefaultAppointments today tomorrow Registry_init) =
     Some (map (\<lambda>d. filter (\<lambda>e. snd (snd e) = name d) (spec_seed today tomorrow)) (m_doctors Registry_init)) \<and>
   map_option (\<lambda>r. map appointments (m_patients r))
     (generateDefaultAppointments today tomorrow Registry_init) =
     Some (map (\<lambda>p. filter (\<lambda>e. fst (snd e) = name p) (spec_seed today tomorrow)) (m_patients Registry_init)) \<and>
   map_option (\<lambda>r. (map name (m_doctors r), map name (m_patients r), map dateOfBirth (m_patients r), m_visitCards r))
     (generateDefaultAppointments today tomorrow Registry_init) =
     Some (map name (m_doctors Registry_init), map name (m_patients Registry_init),
           map dateOfBirth (m_patients Registry_init), []) \<and>
   map_option (\<lambda>r. map entry_of (m_appointments r))
     (Option.bind (generateDefaultAppointments today tomorrow Registry_init)
                  (generateDefaultAppointments today tomorrow)) =
     Some (spec_seed today tomorrow @ spec_seed today tomorrow)"
  using seeded_frame [of today tomorrow]
  by (simp add: generateDefaultAppointments_init seeded_entries seeded_doctor_lists seeded_patient_lists
      seeded_twice)

section \<open>Entry sets under single updates\<close>









lemma entries_by_Nil_lists:
  "\<forall>p\<in>set ps. appointments p = [] \<Longrightarrow> entries_by key ps = {}"
  by (auto simp: entries_by_def)

section \<open>The cases of booking, cancelling and registering\<close>




lemma global_entries_cancel:
  "set (map entry_of (filter (\<lambda>a. entry_of a \<noteq> t) as)) = set (map entry_of as) - {t}"
  by auto


lemma query_frames [simp]:
  "snd (patientExists nm r) = r"
  "snd (findDoctorByName nm r) = r"
  "snd (findPatientByName nm r) = r"
  "snd (getAvailableTimes date r) = r"
  "snd (getAvailableTimesForDoctor date dn r) = r"
  "snd (getAvailableDoctors date r) = r"
  "snd (getVisitCardsForPatient p r) = r"
  by (simp_all add: patientExists_def findDoctorByName_def findPatientByName_def getAvailableTimes_def
      getAvailableTimesForDoctor_def getAvailableDoctors_def getVisitCardsForPatient_def
      split: option.splits)


lemma run_Nil [simp]: "run [] r = r"
  by (simp add: run_def)

lemma run_Cons [simp]: "run (c # cs) r = run cs (exec c r)"
  by (simp add: run_def)


section \<open>The booking invariant\<close>

lemma make_Appointment_sel [simp]:
  "a_dateTime (make_Appointment dt d p) = dt"
  "a_doctor (make_Appointment dt d p) = d"
  "a_patient (make_Appointment dt d p) = p"
  by (simp_all add: make_Appointment_def)

lemma entry_of_make [simp]:
  "entry_of (make_Appointment dt d p) = (dt, name p, name d)"
  by (simp add: entry_of_def make_Appointment_def)









section \<open>The mirror invariant\<close>


lemma entries_frame [simp]:
  "global_entries (r\<lparr>m_doctors := ds\<rparr>) = global_entries r"
  "global_entries (r\<lparr>m_patients := ps\<rparr>) = global_entries r"
  "doctor_entries (r\<lparr>m_appointments := as\<rparr>) = doctor_entries r"
  "doctor_entries (r\<lparr>m_patients := ps\<rparr>) = doctor_entries r"
  "doctor_entries (r\<lparr>m_doctors := ds\<rparr>) = entries_by (\<lambda>e. snd (snd e)) ds"
  "patient_entries (r\<lparr>m_appointments := as\<rparr>) = patient_entries r"
  "patient_entries (r\<lparr>m_doctors := ds\<rparr>) = patient_entries r"
  "patient_entries (r\<lparr>m_patients := ps\<rparr>) = entries_by (\<lambda>e. fst (snd e)) ps"
  by (simp_all add: global_entries_def doctor_entries_def patient_entries_def)





section \<open>No double booking and mirror consistency\<close>

















section \<open>Slot symmetry\<close>









end
